theory Spec2Isabelle
  imports Complex_Main "HOL-Library.Multiset" "HOL-Library.Log_Nat"
begin

section \<open>JavaScript numbers\<close>

text \<open>
  The server computes with JavaScript numbers, the binary64 format of IEEE 754. A
  number is a finite value or one of \<open>Infinity\<close>, \<open>-Infinity\<close> and \<open>NaN\<close>. A finite
  value \<open>Fin x\<close> carries the real number \<open>x\<close> it stands for; it is a number of the
  language when \<open>is_double x\<close> holds. Every arithmetic operation gives the exact
  result rounded to the nearest double (\<open>fl\<close>), a tie going to the even
  significand, and \<open>Infinity\<close> on overflow. A decimal literal such as \<open>3.2\<close>, in the
  source or in a JSON body, is the number \<open>fl 3.2\<close>. The sign of zero is not modelled.
\<close>

datatype jsnum = Fin real | PosInf | NegInf | NaN

text \<open>The infinity of the given sign.\<close>

definition signed_inf :: "bool \<Rightarrow> jsnum" where
  "signed_inf positive = (if positive then PosInf else NegInf)"

text \<open>The nearest integer, a tie going to the even one.\<close>

definition round_even :: "real \<Rightarrow> int" where
  "round_even y =
     (let f = \<lfloor>y\<rfloor>; d = y - of_int f
      in if d < 1 / 2 then f else if 1 / 2 < d then f + 1
         else if even f then f else f + 1)"

text \<open>The exponent \<open>e\<close> with \<open>2^e \<le> a < 2^(e+1)\<close>, for \<open>a > 0\<close>.\<close>

definition binade :: "real \<Rightarrow> int" where
  "binade a = (if 1 \<le> a then bitlen \<lfloor>a\<rfloor> - 1 else - bitlen (\<lceil>1 / a\<rceil> - 1))"

text \<open>
  The distance between the doubles around \<open>a\<close>: 52 bits below the exponent of
  \<open>a\<close>, and \<open>2^-1074\<close> for the subnormal numbers.
\<close>

definition ulp :: "real \<Rightarrow> real" where
  "ulp a = 2 powi (max (binade a) (- 1022) - 52)"

text \<open>The multiple of \<open>ulp\<close> nearest to \<open>x\<close>.\<close>

definition round64 :: "real \<Rightarrow> real" where
  "round64 x = sgn x * (of_int (round_even (\<bar>x\<bar> / ulp \<bar>x\<bar>)) * ulp \<bar>x\<bar>)"

text \<open>
  The number that an exact result \<open>x\<close> becomes. The largest double is
  \<open>2^1024 - 2^971\<close>; from half a step above it the result is an infinity.
\<close>

definition fl :: "real \<Rightarrow> jsnum" where
  "fl x = (if 2 ^ 1024 - 2 ^ 970 \<le> \<bar>x\<bar> then signed_inf (0 < x) else Fin (round64 x))"

text \<open>The real numbers that are doubles: the multiples of their \<open>ulp\<close> in the range.\<close>

definition is_double :: "real \<Rightarrow> bool" where
  "is_double x \<longleftrightarrow>
     \<bar>x\<bar> \<le> 2 ^ 1024 - 2 ^ 971 \<and> of_int \<lfloor>\<bar>x\<bar> / ulp \<bar>x\<bar>\<rfloor> = \<bar>x\<bar> / ulp \<bar>x\<bar>"

fun js_neg :: "jsnum \<Rightarrow> jsnum" where
  "js_neg (Fin x) = Fin (- x)"
| "js_neg PosInf = NegInf"
| "js_neg NegInf = PosInf"
| "js_neg NaN = NaN"

text \<open>\<open>a + b\<close>\<close>

fun js_add :: "jsnum \<Rightarrow> jsnum \<Rightarrow> jsnum" where
  "js_add (Fin x) (Fin y) = fl (x + y)"
| "js_add NaN b = NaN"
| "js_add a NaN = NaN"
| "js_add PosInf NegInf = NaN"
| "js_add NegInf PosInf = NaN"
| "js_add PosInf b = PosInf"
| "js_add NegInf b = NegInf"
| "js_add (Fin x) b = b"

text \<open>\<open>a - b\<close>\<close>

definition js_sub :: "jsnum \<Rightarrow> jsnum \<Rightarrow> jsnum" where
  "js_sub a b = js_add a (js_neg b)"

text \<open>\<open>a * b\<close>\<close>

fun js_mul :: "jsnum \<Rightarrow> jsnum \<Rightarrow> jsnum" where
  "js_mul (Fin x) (Fin y) = fl (x * y)"
| "js_mul NaN b = NaN"
| "js_mul a NaN = NaN"
| "js_mul (Fin x) PosInf = (if x = 0 then NaN else signed_inf (0 < x))"
| "js_mul (Fin x) NegInf = (if x = 0 then NaN else signed_inf (x < 0))"
| "js_mul PosInf (Fin y) = (if y = 0 then NaN else signed_inf (0 < y))"
| "js_mul NegInf (Fin y) = (if y = 0 then NaN else signed_inf (y < 0))"
| "js_mul PosInf PosInf = PosInf"
| "js_mul PosInf NegInf = NegInf"
| "js_mul NegInf PosInf = NegInf"
| "js_mul NegInf NegInf = PosInf"

text \<open>\<open>a / b\<close>: a division by zero is not an error, it gives an infinity or \<open>NaN\<close>.\<close>

fun js_div :: "jsnum \<Rightarrow> jsnum \<Rightarrow> jsnum" where
  "js_div (Fin x) (Fin y) =
     (if y = 0 then (if x = 0 then NaN else signed_inf (0 < x)) else fl (x / y))"
| "js_div NaN b = NaN"
| "js_div a NaN = NaN"
| "js_div (Fin x) b = Fin 0"
| "js_div PosInf (Fin y) = signed_inf (0 \<le> y)"
| "js_div NegInf (Fin y) = signed_inf (y < 0)"
| "js_div PosInf PosInf = NaN"
| "js_div PosInf NegInf = NaN"
| "js_div NegInf PosInf = NaN"
| "js_div NegInf NegInf = NaN"

text \<open>\<open>a <= b\<close>: every comparison with \<open>NaN\<close> is false.\<close>

fun js_le :: "jsnum \<Rightarrow> jsnum \<Rightarrow> bool" where
  "js_le (Fin x) (Fin y) = (x \<le> y)"
| "js_le NaN b = False"
| "js_le a NaN = False"
| "js_le NegInf b = True"
| "js_le a PosInf = True"
| "js_le (Fin x) NegInf = False"
| "js_le PosInf b = False"

text \<open>\<open>a >= b\<close>\<close>

definition js_ge :: "jsnum \<Rightarrow> jsnum \<Rightarrow> bool" where
  "js_ge a b = js_le b a"

text \<open>\<open>a === b\<close> on numbers: \<open>NaN\<close> is not equal to itself.\<close>

definition js_seq :: "jsnum \<Rightarrow> jsnum \<Rightarrow> bool" where
  "js_seq a b = (a \<noteq> NaN \<and> a = b)"

text \<open>A number is truthy unless it is \<open>0\<close> or \<open>NaN\<close>; \<open>!a\<close> is the negation.\<close>

definition js_truthy :: "jsnum \<Rightarrow> bool" where
  "js_truthy a = (a \<noteq> Fin 0 \<and> a \<noteq> NaN)"

text \<open>\<open>Math.max(a, b)\<close>: \<open>NaN\<close> when an argument is \<open>NaN\<close>.\<close>

definition Math_max :: "jsnum \<Rightarrow> jsnum \<Rightarrow> jsnum" where
  "Math_max a b =
     (if a = NaN \<or> b = NaN then NaN else if js_le a b then b else a)"

text \<open>\<open>Math.floor(a)\<close>: the floor of a double is a double, nothing is rounded.\<close>

fun Math_floor :: "jsnum \<Rightarrow> jsnum" where
  "Math_floor (Fin x) = Fin (of_int \<lfloor>x\<rfloor>)"
| "Math_floor a = a"

text \<open>
  \<open>Math.round(a)\<close>: the integer nearest to the double \<open>a\<close> itself, a tie going to
  the larger one; the result is a double.
\<close>

fun Math_round :: "jsnum \<Rightarrow> jsnum" where
  "Math_round (Fin x) = Fin (of_int \<lfloor>x + 1 / 2\<rfloor>)"
| "Math_round a = a"

text \<open>The idiom \<open>Math.round(x * 100) / 100\<close> of the handlers.\<close>

definition round2 :: "jsnum \<Rightarrow> jsnum" where
  "round2 x = js_div (Math_round (js_mul x (Fin 100))) (Fin 100)"

section \<open>Product records\<close>

datatype criticality = High | Medium | Low

record product =
  productId :: string
  name :: string
  currentStock :: jsnum
  averageDailySales :: jsnum
  supplierLeadTime :: jsnum
  minimumReorderQuantity :: jsnum
  costPerUnit :: jsnum
  criticality :: criticality
  lastUpdated :: int

section \<open>Helper functions for calculations\<close>

definition calculateDaysOfStockRemaining :: "jsnum \<Rightarrow> jsnum \<Rightarrow> jsnum" where
  "calculateDaysOfStockRemaining cs ads =
     (if js_seq ads (Fin 0) then PosInf else Math_floor (js_div cs ads))"

text \<open>A parameter with a default value is an option: \<open>None\<close> when the caller omits it.\<close>

definition calculateSafetyStockThreshold :: "jsnum \<Rightarrow> jsnum option \<Rightarrow> jsnum" where
  "calculateSafetyStockThreshold slt bufferDays =
     js_add slt (case bufferDays of None \<Rightarrow> Fin 5 | Some b \<Rightarrow> b)"

definition calculateOptimalReorderQuantity ::
  "jsnum \<Rightarrow> jsnum option \<Rightarrow> jsnum option \<Rightarrow> jsnum" where
  "calculateOptimalReorderQuantity ads targetDays cs =
     (let targetStock = js_mul ads (case targetDays of None \<Rightarrow> Fin 60 | Some t \<Rightarrow> t)
      in Math_max (Fin 0) (js_sub targetStock (case cs of None \<Rightarrow> Fin 0 | Some c \<Rightarrow> c)))"

definition needsReorder :: "jsnum \<Rightarrow> jsnum \<Rightarrow> bool" where
  "needsReorder daysRemaining safetyThreshold = js_le daysRemaining safetyThreshold"

section \<open>Reorder analysis\<close>

text \<open>
  A value of the response that is a number or a string: the days remaining are
  reported as the string \<open>'Unlimited'\<close> or as a number.
\<close>

datatype jsval = Num jsnum | Str string

text \<open>
  One element of the analysis: the fields of the product (\<open>...product.toObject()\<close>)
  and the derived ones. The key \<open>needsReorder\<close> of the object is the field
  \<open>needsReorderFlag\<close> here, after the variable it is set from, since \<open>needsReorder\<close>
  is the helper function.
\<close>

record analysis = product +
  daysRemaining :: jsval
  safetyThreshold :: jsnum
  needsReorderFlag :: bool
  optimalReorderQuantity :: jsnum
  estimatedCost :: jsnum

text \<open>The callback of \<open>products.map\<close>.\<close>

definition analyze :: "product \<Rightarrow> analysis" where
  "analyze p =
     (let daysRemaining' =
            calculateDaysOfStockRemaining (currentStock p) (averageDailySales p);
          safetyThreshold' = calculateSafetyStockThreshold (supplierLeadTime p) None;
          needsReorderFlag' = needsReorder daysRemaining' safetyThreshold';
          optimalQuantity =
            (if needsReorderFlag'
             then Math_max
                    (calculateOptimalReorderQuantity (averageDailySales p)
                       (Some (Fin 60)) (Some (currentStock p)))
                    (minimumReorderQuantity p)
             else Fin 0);
          estimatedCost' = round2 (js_mul optimalQuantity (costPerUnit p))
      in \<lparr> productId = productId p, name = name p, currentStock = currentStock p,
           averageDailySales = averageDailySales p,
           supplierLeadTime = supplierLeadTime p,
           minimumReorderQuantity = minimumReorderQuantity p,
           costPerUnit = costPerUnit p, criticality = criticality p,
           lastUpdated = lastUpdated p,
           daysRemaining =
             (if js_seq daysRemaining' PosInf then Str ''Unlimited''
              else Num daysRemaining'),
           safetyThreshold = safetyThreshold',
           needsReorderFlag = needsReorderFlag',
           optimalReorderQuantity = optimalQuantity,
           estimatedCost = estimatedCost' \<rparr>)"

text \<open>The lookup table \<open>criticalityOrder\<close> of the comparator.\<close>

fun criticalityOrder :: "criticality \<Rightarrow> int" where
  "criticalityOrder High = 3"
| "criticalityOrder Medium = 2"
| "criticalityOrder Low = 1"

text \<open>The comparator given to \<open>analysis.sort\<close>.\<close>

definition sort_comparator :: "analysis \<Rightarrow> analysis \<Rightarrow> int" where
  "sort_comparator a b =
     (if needsReorderFlag a \<and> \<not> needsReorderFlag b then - 1
      else if \<not> needsReorderFlag a \<and> needsReorderFlag b then 1
      else criticalityOrder (criticality b) - criticalityOrder (criticality a))"

text \<open>
  \<open>Array.prototype.sort\<close> with a comparator belongs to the runtime. The language
  requires a stable sort (the README asks for Node.js 16 or later), and for a
  comparator that is a consistent ordering, as this one is, the result does not
  depend on the algorithm. It is modelled by a stable insertion sort: \<open>x\<close> goes
  before the first element \<open>y\<close> with \<open>cmp x y \<le> 0\<close>.
\<close>

fun place :: "('a \<Rightarrow> 'a \<Rightarrow> int) \<Rightarrow> 'a \<Rightarrow> 'a list \<Rightarrow> 'a list" where
  "place cmp x [] = [x]"
| "place cmp x (y # ys) = (if cmp x y \<le> 0 then x # y # ys else y # place cmp x ys)"

fun array_sort :: "('a \<Rightarrow> 'a \<Rightarrow> int) \<Rightarrow> 'a list \<Rightarrow> 'a list" where
  "array_sort cmp [] = []"
| "array_sort cmp (x # xs) = place cmp x (array_sort cmp xs)"

text \<open>The analysis of all products, sorted: the body of the handler once
  \<open>Product.find()\<close> has given the products.\<close>

definition analyzeAll :: "product list \<Rightarrow> analysis list" where
  "analyzeAll products = array_sort sort_comparator (map analyze products)"

text \<open>
  The position of an element in the order of the comparator: the elements that need
  a reorder first, and in each group the higher criticality first.
\<close>

definition urgency :: "analysis \<Rightarrow> int" where
  "urgency a =
     (if needsReorderFlag a then 0 else 3) + (3 - criticalityOrder (criticality a))"

section \<open>Responses and the record store\<close>

text \<open>
  An error response: status 400 (invalid input), 404 (not found) or 500 (the
  \<open>catch\<close> of a handler), each with its message.
\<close>

datatype error = InvalidInput string | NotFound string | ServerError string

text \<open>
  The record store is outside the program: a query is a promise that is rejected
  with an error message or resolved with a result.
\<close>

datatype 'a promise = Rejected string | Resolved 'a

definition reorder_analysis_handler :: "product list promise \<Rightarrow> error + analysis list" where
  "reorder_analysis_handler found =
     (case found of
        Rejected message \<Rightarrow> Inl (ServerError message)
      | Resolved products \<Rightarrow> Inr (analyzeAll products))"

section \<open>Demand spike simulation\<close>

text \<open>The local constants of the handler, for a product, a multiplier and a duration.\<close>

definition spikedDailySales :: "product \<Rightarrow> jsnum \<Rightarrow> jsnum" where
  "spikedDailySales p sm = js_mul (averageDailySales p) sm"

definition totalSpikeConsumption :: "product \<Rightarrow> jsnum \<Rightarrow> jsnum \<Rightarrow> jsnum" where
  "totalSpikeConsumption p sm sd = js_mul (spikedDailySales p sm) sd"

definition stockAfterSpike :: "product \<Rightarrow> jsnum \<Rightarrow> jsnum \<Rightarrow> jsnum" where
  "stockAfterSpike p sm sd =
     Math_max (Fin 0) (js_sub (currentStock p) (totalSpikeConsumption p sm sd))"

definition totalDays :: jsnum where
  "totalDays = Fin 30"

definition normalPeriod :: "jsnum \<Rightarrow> jsnum" where
  "normalPeriod sd = Math_max (Fin 0) (js_sub totalDays sd)"

definition newAverageDailySales :: "product \<Rightarrow> jsnum \<Rightarrow> jsnum \<Rightarrow> jsnum" where
  "newAverageDailySales p sm sd =
     (if js_ge sd totalDays then spikedDailySales p sm
      else js_div
             (js_add (js_mul (averageDailySales p) (normalPeriod sd))
                (js_mul (spikedDailySales p sm) sd))
             totalDays)"

definition spike_daysRemaining :: "product \<Rightarrow> jsnum \<Rightarrow> jsnum \<Rightarrow> jsnum" where
  "spike_daysRemaining p sm sd =
     calculateDaysOfStockRemaining (stockAfterSpike p sm sd) (newAverageDailySales p sm sd)"

definition spike_needsReorderFlag :: "product \<Rightarrow> jsnum \<Rightarrow> jsnum \<Rightarrow> bool" where
  "spike_needsReorderFlag p sm sd =
     needsReorder (spike_daysRemaining p sm sd)
       (calculateSafetyStockThreshold (supplierLeadTime p) None)"

definition spike_optimalQuantity :: "product \<Rightarrow> jsnum \<Rightarrow> jsnum \<Rightarrow> jsnum" where
  "spike_optimalQuantity p sm sd =
     (if spike_needsReorderFlag p sm sd
      then Math_max
             (calculateOptimalReorderQuantity (newAverageDailySales p sm sd)
                (Some (Fin 60)) (Some (stockAfterSpike p sm sd)))
             (minimumReorderQuantity p)
      else Fin 0)"

text \<open>The object \<open>simulation\<close> of the response; each field carries the name of the
  object it belongs to.\<close>

record original =
  original_currentStock :: jsnum
  original_averageDailySales :: jsnum
  original_daysRemaining :: jsval

record afterSpike =
  afterSpike_stockAfterSpike :: jsnum
  afterSpike_newAverageDailySales :: jsnum
  afterSpike_daysRemaining :: jsval
  afterSpike_needsReorder :: bool
  afterSpike_optimalReorderQuantity :: jsnum
  afterSpike_estimatedCost :: jsnum

record spikeDetails =
  spikeDetails_spikeMultiplier :: jsnum
  spikeDetails_spikeDuration :: jsnum
  totalConsumptionDuringSpike :: jsnum
  stockDepletion :: jsnum

record simulation =
  productName :: string
  original :: original
  afterSpike :: afterSpike
  spikeDetails :: spikeDetails

definition simulate :: "product \<Rightarrow> jsnum \<Rightarrow> jsnum \<Rightarrow> simulation" where
  "simulate p sm sd =
     \<lparr> productName = name p,
       original =
         \<lparr> original_currentStock = currentStock p,
           original_averageDailySales = round2 (averageDailySales p),
           original_daysRemaining =
             Num (calculateDaysOfStockRemaining (currentStock p) (averageDailySales p)) \<rparr>,
       afterSpike =
         \<lparr> afterSpike_stockAfterSpike = round2 (stockAfterSpike p sm sd),
           afterSpike_newAverageDailySales = round2 (newAverageDailySales p sm sd),
           afterSpike_daysRemaining =
             (if js_seq (spike_daysRemaining p sm sd) PosInf then Str ''Unlimited''
              else Num (spike_daysRemaining p sm sd)),
           afterSpike_needsReorder = spike_needsReorderFlag p sm sd,
           afterSpike_optimalReorderQuantity = spike_optimalQuantity p sm sd,
           afterSpike_estimatedCost =
             round2 (js_mul (spike_optimalQuantity p sm sd) (costPerUnit p)) \<rparr>,
       spikeDetails =
         \<lparr> spikeDetails_spikeMultiplier = sm,
           spikeDetails_spikeDuration = sd,
           totalConsumptionDuringSpike = round2 (totalSpikeConsumption p sm sd),
           stockDepletion =
             round2 (js_mul (js_div (totalSpikeConsumption p sm sd) (currentStock p))
                       (Fin 100)) \<rparr> \<rparr>"

text \<open>
  The body of the request: a field is \<open>None\<close> when it is absent or \<open>null\<close>, the
  identifier is a string and the two parameters are numbers otherwise, as the client
  sends them (\<open>parseFloat\<close>, \<open>parseInt\<close>). A parameter of another JSON type is
  outside this model.
\<close>

record spike_request =
  body_productId :: "string option"
  body_spikeMultiplier :: "jsnum option"
  body_spikeDuration :: "jsnum option"

definition missing_fields :: string where
  "missing_fields = ''Missing required fields: productId, spikeMultiplier, spikeDuration''"

definition not_positive :: string where
  "not_positive = ''spikeMultiplier and spikeDuration must be positive numbers''"

text \<open>
  The handler of \<open>POST /api/simulate-demand-spike\<close>. The first argument is the
  query \<open>Product.findOne({ productId })\<close> of the store. \<open>!x\<close> holds for an absent
  field, the empty string, \<open>0\<close> and \<open>NaN\<close>.
\<close>

definition simulate_demand_spike ::
  "(string \<Rightarrow> product option promise) \<Rightarrow> spike_request \<Rightarrow> error + simulation" where
  "simulate_demand_spike findOne body =
     (case (body_productId body, body_spikeMultiplier body, body_spikeDuration body) of
        (Some pid, Some sm, Some sd) \<Rightarrow>
          if pid = [] \<or> \<not> js_truthy sm \<or> \<not> js_truthy sd
          then Inl (InvalidInput missing_fields)
          else if js_le sm (Fin 0) \<or> js_le sd (Fin 0)
          then Inl (InvalidInput not_positive)
          else (case findOne pid of
                  Rejected message \<Rightarrow> Inl (ServerError message)
                | Resolved None \<Rightarrow> Inl (NotFound ''Product not found'')
                | Resolved (Some p) \<Rightarrow> Inr (simulate p sm sd))
      | _ \<Rightarrow> Inl (InvalidInput missing_fields))"

section \<open>Rounding to two decimals, as the specification words it\<close>

text \<open>
  The two standard modes the specification names, on the exact value: the nearest
  multiple of \<open>0.01\<close>, a tie going up, or going to the even multiple.
\<close>

definition half_up_2dp :: "real \<Rightarrow> real" where
  "half_up_2dp x = of_int \<lfloor>x * 100 + 1 / 2\<rfloor> / 100"

definition half_even_2dp :: "real \<Rightarrow> real" where
  "half_even_2dp x = of_int (round_even (x * 100)) / 100"

section \<open>Example records\<close>

text \<open>Two records of the seed data, \<open>PROD-001\<close> and \<open>PROD-009\<close>.\<close>

definition prod_001 :: product where
  "prod_001 =
     \<lparr> productId = ''PROD-001'', name = ''Wireless Bluetooth Headphones'',
       currentStock = Fin 45, averageDailySales = fl 3.2, supplierLeadTime = Fin 7,
       minimumReorderQuantity = Fin 50, costPerUnit = Fin 2499, criticality = High,
       lastUpdated = 0 \<rparr>"

definition prod_009 :: product where
  "prod_009 =
     \<lparr> productId = ''PROD-009'', name = ''Bluetooth Speaker Portable'',
       currentStock = Fin 8, averageDailySales = fl 4.1, supplierLeadTime = Fin 9,
       minimumReorderQuantity = Fin 20, costPerUnit = Fin 2949, criticality = High,
       lastUpdated = 0 \<rparr>"

text \<open>A record that is not sold, and a record that is out of stock.\<close>

definition idle_product :: product where
  "idle_product = prod_001 \<lparr> productId := ''IDLE-1'', averageDailySales := Fin 0 \<rparr>"

definition sold_out_product :: product where
  "sold_out_product = prod_009 \<lparr> productId := ''OUT-1'', currentStock := Fin 0 \<rparr>"

text \<open>
  A record whose arithmetic is exact (sales of 4.5), the spike scenario of the
  specification (stock 100, sales 2), and a record that is reordered one unit at a
  time for the price \<open>2.675\<close>.
\<close>

definition dyadic_product :: product where
  "dyadic_product = prod_009 \<lparr> productId := ''DYAD-1'', averageDailySales := Fin 4.5 \<rparr>"

definition scenario_product :: product where
  "scenario_product =
     prod_001 \<lparr> productId := ''SPIKE-1'', currentStock := Fin 100,
       averageDailySales := Fin 2 \<rparr>"

definition cent_product :: product where
  "cent_product =
     \<lparr> productId = ''CENT-1'', name = ''Cable Tie'',
       currentStock = Fin 0, averageDailySales = Fin (1 / 64), supplierLeadTime = Fin 1,
       minimumReorderQuantity = Fin 1, costPerUnit = fl 2.675, criticality = Low,
       lastUpdated = 0 \<rparr>"

text \<open>A store that holds the first four records, and a store that cannot be reached.\<close>

definition example_store :: "string \<Rightarrow> product option promise" where
  "example_store pid =
     Resolved (if pid = ''PROD-001'' then Some prod_001
               else if pid = ''PROD-009'' then Some prod_009
               else if pid = ''IDLE-1'' then Some idle_product
               else if pid = ''OUT-1'' then Some sold_out_product
               else None)"

definition unreachable_store :: "string \<Rightarrow> product option promise" where
  "unreachable_store pid = Rejected ''connection lost''"

section \<open>Unfolding rules\<close>

lemmas calc_defs = calculateDaysOfStockRemaining_def calculateSafetyStockThreshold_def
  calculateOptimalReorderQuantity_def needsReorder_def js_seq_def Math_max_def js_sub_def

lemmas spike_defs = spikedDailySales_def totalSpikeConsumption_def stockAfterSpike_def
  totalDays_def normalPeriod_def newAverageDailySales_def spike_daysRemaining_def
  spike_needsReorderFlag_def spike_optimalQuantity_def js_ge_def

lemmas example_defs = prod_001_def prod_009_def idle_product_def sold_out_product_def
  dyadic_product_def scenario_product_def cent_product_def

text \<open>The rules that compute the rounding of a given number.\<close>

lemmas fl_eval = fl_def round64_def ulp_def binade_def round_even_def Let_def signed_inf_def
  compute_bitlen

section \<open>Rounding\<close>

lemma round64_zero: "round64 0 = 0"
  by (simp add: round64_def)

lemma fl_zero: "fl 0 = Fin 0"
  by (simp add: fl_def round64_zero)

lemma fl_cases: "(\<exists>y. fl x = Fin y) \<or> fl x = PosInf \<or> fl x = NegInf"
  by (simp add: fl_def signed_inf_def)

lemma ulp_pos: "0 < ulp a"
  by (simp add: ulp_def)

lemma round_even_of_int: "round_even (of_int k) = k"
  by (simp add: round_even_def)

lemma round_even_nonneg: "0 \<le> y \<Longrightarrow> 0 \<le> round_even y"
  by (auto simp: round_even_def Let_def)

lemma round64_nonneg: "0 \<le> x \<Longrightarrow> 0 \<le> round64 x"
proof -
  assume "0 \<le> x"
  then have "0 \<le> \<bar>x\<bar> / ulp \<bar>x\<bar>"
    using ulp_pos [of "\<bar>x\<bar>"] by simp
  then have "0 \<le> round_even (\<bar>x\<bar> / ulp \<bar>x\<bar>)"
    by (rule round_even_nonneg)
  then have "0 \<le> of_int (round_even (\<bar>x\<bar> / ulp \<bar>x\<bar>)) * ulp \<bar>x\<bar>"
    using ulp_pos [of "\<bar>x\<bar>"] by simp
  then show ?thesis
    using \<open>0 \<le> x\<close> by (simp add: round64_def sgn_real_def)
qed

lemma fl_nonneg: "0 \<le> x \<Longrightarrow> js_le (Fin 0) (fl x)"
  using round64_nonneg [of x] by (simp add: fl_def signed_inf_def)

lemma round64_double: "is_double x \<Longrightarrow> round64 x = x"
proof -
  assume d: "is_double x"
  define y where "y = \<bar>x\<bar> / ulp \<bar>x\<bar>"
  from d have i: "of_int \<lfloor>y\<rfloor> = y" by (simp only: is_double_def y_def)
  have "round_even (of_int \<lfloor>y\<rfloor>) = \<lfloor>y\<rfloor>" by (rule round_even_of_int)
  then have "round_even y = \<lfloor>y\<rfloor>" unfolding i .
  then have "of_int (round_even y) = y" using i by (simp only:)
  moreover have "y * ulp \<bar>x\<bar> = \<bar>x\<bar>"
    using ulp_pos [of "\<bar>x\<bar>"] by (simp add: y_def)
  ultimately have "of_int (round_even y) * ulp \<bar>x\<bar> = \<bar>x\<bar>" by simp
  then have "round64 x = sgn x * \<bar>x\<bar>"
    by (simp only: round64_def y_def)
  then show ?thesis
    by (simp add: sgn_real_def)
qed

lemma fl_small: "\<bar>x\<bar> < 2 ^ 1024 - 2 ^ 970 \<Longrightarrow> fl x = Fin (round64 x)"
  by (simp add: fl_def)

lemma fl_double: "is_double x \<Longrightarrow> fl x = Fin x"
proof -
  assume d: "is_double x"
  then have "\<bar>x\<bar> \<le> 2 ^ 1024 - 2 ^ 971" by (simp add: is_double_def)
  moreover have "(2::real) ^ 1024 - 2 ^ 971 < 2 ^ 1024 - 2 ^ 970" by simp
  ultimately have "\<bar>x\<bar> < 2 ^ 1024 - 2 ^ 970" by linarith
  then show ?thesis using round64_double [OF d] by (simp add: fl_small)
qed

lemma fl_double_plus_5: "is_double l \<Longrightarrow> fl (l + 5) = Fin (round64 (l + 5))"
proof -
  assume "is_double l"
  then have "\<bar>l\<bar> \<le> 2 ^ 1024 - 2 ^ 971" by (simp add: is_double_def)
  moreover have "(5::real) < 2 ^ 971 - 2 ^ 970" by simp
  ultimately have "\<bar>l + 5\<bar> < 2 ^ 1024 - 2 ^ 970" by linarith
  then show ?thesis by (rule fl_small)
qed

lemma is_double_zero: "is_double 0"
  by (simp add: is_double_def)

lemma is_double_of_int:
  assumes "0 \<le> k" and "k < 2 ^ 53"
  shows "is_double (of_int k)"
proof (cases "k = 0")
  case True
  then show ?thesis by (simp add: is_double_zero)
next
  case False
  with assms have pos: "0 < k" by simp
  define e where "e = bitlen k - 1"
  from bitlen_bounds [OF pos] have lo: "2 ^ nat e \<le> k" by (simp add: e_def)
  have "0 \<le> e" using pos by (simp add: e_def bitlen_alt_def)
  have "e \<le> 52"
  proof (rule ccontr)
    assume "\<not> e \<le> 52"
    then have "53 \<le> nat e" by simp
    then have "(2::int) ^ 53 \<le> 2 ^ nat e" by (intro power_increasing) simp_all
    with lo assms(2) show False by simp
  qed
  have b: "binade (of_int k) = e"
    using pos by (simp add: binade_def e_def)
  define n where "n = nat (52 - e)"
  have a: "\<bar>of_int k :: real\<bar> = of_int k" using pos by simp
  have "max e (- 1022) - 52 = - int n"
    using \<open>0 \<le> e\<close> \<open>e \<le> 52\<close> by (simp add: n_def)
  then have "ulp (of_int k) = 2 powi (- int n)"
    by (simp only: ulp_def b)
  also have "\<dots> = inverse (2 ^ n)"
    by (simp only: power_int_minus power_int_of_nat)
  finally have u: "ulp (of_int k) = 1 / 2 ^ n"
    by (simp only: inverse_eq_divide)
  have "of_int k / ulp (of_int k) = (of_int (k * 2 ^ n) :: real)"
    by (simp add: u)
  then have "of_int \<lfloor>of_int k / ulp (of_int k)\<rfloor> = (of_int k / ulp (of_int k) :: real)"
    by (simp only: floor_of_int)
  then have "of_int \<lfloor>\<bar>of_int k :: real\<bar> / ulp \<bar>of_int k\<bar>\<rfloor> = \<bar>of_int k :: real\<bar> / ulp \<bar>of_int k\<bar>"
    by (simp only: a)
  moreover have "\<bar>of_int k :: real\<bar> \<le> 2 ^ 1024 - 2 ^ 971"
  proof -
    have "real_of_int k < 2 ^ 53" using assms(2) by (metis of_int_less_numeral_power_cancel_iff)
    moreover have "(2::real) ^ 53 \<le> 2 ^ 1024 - 2 ^ 971" by simp
    ultimately show ?thesis using pos by simp
  qed
  ultimately show ?thesis by (simp only: is_double_def)
qed

lemma Math_max_Fin: "Math_max (Fin x) (Fin y) = Fin (max x y)"
  by (simp add: Math_max_def max_def)

lemma fl_not_NaN: "fl x \<noteq> NaN"
  by (simp add: fl_def signed_inf_def)

lemma js_sub_fl_not_NaN: "js_sub (fl z) (Fin s) \<noteq> NaN"
  using fl_cases [of z] by (auto simp: js_sub_def fl_not_NaN)

lemma clamped_nonneg: "X \<noteq> NaN \<Longrightarrow> js_le (Fin 0) (Math_max (Fin 0) X)"
  by (cases X) (simp_all add: Math_max_def)

lemma clamped_max_nonneg:
  "X \<noteq> NaN \<Longrightarrow> js_le (Fin 0) (Math_max (Math_max (Fin 0) X) (Fin m))"
  by (cases X) (simp_all add: Math_max_def)

lemma round2_zero: "round2 (Fin 0) = Fin 0"
  by (simp add: round2_def fl_zero)

text \<open>
  Below \<open>2^52\<close> every integer is a double, so rounding never crosses one: the
  rounded value lies between the integers around the exact one.
\<close>

lemma round_even_bounds: "\<lfloor>y\<rfloor> \<le> round_even y \<and> round_even y \<le> \<lfloor>y\<rfloor> + 1"
  by (simp add: round_even_def Let_def)

lemma binade_below: 
  assumes "0 \<le> a" and "a < 2 ^ 52"
  shows "binade a \<le> 51"
proof (cases "1 \<le> a")
  case True
  define k where "k = \<lfloor>a\<rfloor>"
  have pos: "0 < k" using True by (simp add: k_def)
  have "k < 2 ^ 52" using assms(2) by (simp add: k_def floor_less_iff)
  from bitlen_bounds [OF pos] have lo: "2 ^ nat (bitlen k - 1) \<le> k" by simp
  have "bitlen k - 1 \<le> 51"
  proof (rule ccontr)
    assume "\<not> bitlen k - 1 \<le> 51"
    then have "52 \<le> nat (bitlen k - 1)" by simp
    then have "(2::int) ^ 52 \<le> 2 ^ nat (bitlen k - 1)" by (intro power_increasing) simp_all
    with lo \<open>k < 2 ^ 52\<close> show False by simp
  qed
  then show ?thesis using True by (simp add: binade_def k_def)
next
  case False
  have "0 \<le> bitlen (\<lceil>1 / a\<rceil> - 1)" by (rule bitlen_nonneg)
  then show ?thesis using False by (simp add: binade_def)
qed

lemma ulp_below:
  assumes "0 \<le> a" and "a < 2 ^ 52"
  shows "\<exists>k::nat. ulp a = 1 / 2 ^ k"
proof -
  define n where "n = nat (52 - max (binade a) (- 1022))"
  have "max (binade a) (- 1022) - 52 = - int n"
    using binade_below [OF assms] by (simp add: n_def)
  then have "ulp a = 2 powi (- int n)"
    by (simp only: ulp_def)
  also have "\<dots> = inverse (2 ^ n)"
    by (simp only: power_int_minus power_int_of_nat)
  finally have "ulp a = 1 / 2 ^ n"
    by (simp only: inverse_eq_divide)
  then show ?thesis by blast
qed

lemma round64_between_integers:
  assumes "0 \<le> q" and "q < 2 ^ 52"
  shows "of_int \<lfloor>q\<rfloor> \<le> round64 q \<and> round64 q \<le> of_int \<lfloor>q\<rfloor> + 1"
proof (cases "q = 0")
  case True
  then show ?thesis by (simp add: round64_zero)
next
  case False
  with assms have pos: "0 < q" by simp
  obtain k :: nat where u: "ulp q = 1 / 2 ^ k"
    using ulp_below [OF assms] by blast
  define y where "y = q * 2 ^ k"
  define n where "n = \<lfloor>q\<rfloor>"
  have r: "round64 q = of_int (round_even y) / 2 ^ k"
    using pos by (simp add: round64_def u y_def)
  have "of_int (n * 2 ^ k) \<le> y"
    by (simp add: y_def n_def)
  then have "n * 2 ^ k \<le> \<lfloor>y\<rfloor>" by (simp only: le_floor_iff)
  with round_even_bounds [of y] have "n * 2 ^ k \<le> round_even y" by linarith
  then have "(of_int (n * 2 ^ k) :: real) \<le> of_int (round_even y)" by (simp only: of_int_le_iff)
  then have lo: "of_int n \<le> round64 q"
    by (simp add: r field_simps)
  have "q < of_int n + 1" by (simp add: n_def)
  then have "y < of_int ((n + 1) * 2 ^ k)"
    by (simp add: y_def)
  then have "\<lfloor>y\<rfloor> < (n + 1) * 2 ^ k" by (simp only: floor_less_iff)
  with round_even_bounds [of y] have "round_even y \<le> (n + 1) * 2 ^ k" by linarith
  then have "(of_int (round_even y) :: real) \<le> of_int ((n + 1) * 2 ^ k)"
    by (simp only: of_int_le_iff)
  then have hi: "round64 q \<le> of_int n + 1"
    by (simp add: r field_simps)
  show ?thesis using lo hi by (simp add: n_def)
qed

lemma floor_fl_near:
  assumes "0 \<le> q" and "q < 2 ^ 52"
  shows "Math_floor (fl q) = Fin (of_int \<lfloor>q\<rfloor>) \<or> Math_floor (fl q) = Fin (of_int \<lfloor>q\<rfloor> + 1)"
proof -
  have "(2::real) ^ 52 < 2 ^ 1024 - 2 ^ 970" by simp
  with assms have "\<bar>q\<bar> < 2 ^ 1024 - 2 ^ 970" by linarith
  then have f: "fl q = Fin (round64 q)" by (rule fl_small)
  note b = round64_between_integers [OF assms]
  have "\<lfloor>round64 q\<rfloor> = \<lfloor>q\<rfloor> \<or> \<lfloor>round64 q\<rfloor> = \<lfloor>q\<rfloor> + 1"
  proof (cases "round64 q < of_int \<lfloor>q\<rfloor> + 1")
    case True
    with b have "\<lfloor>round64 q\<rfloor> = \<lfloor>q\<rfloor>" by (intro floor_unique) simp_all
    then show ?thesis by simp
  next
    case False
    with b have "round64 q = of_int (\<lfloor>q\<rfloor> + 1)" by simp
    then have "\<lfloor>round64 q\<rfloor> = \<lfloor>q\<rfloor> + 1" by (simp only: floor_of_int)
    then show ?thesis by simp
  qed
  then show ?thesis by (auto simp: f)
qed

text \<open>A lead time of whole days below \<open>2^53 - 5\<close> gives an exact threshold.\<close>

lemma integer_lead_exact: "0 \<le> k \<Longrightarrow> k < 2 ^ 53 - 5 \<Longrightarrow> is_double (of_int k + 5)"
  using is_double_of_int [of "k + 5"] by simp

section \<open>Days of stock remaining\<close>

text \<open>
  Claim C1, as amended. For a stock \<open>s \<ge> 0\<close> and daily sales \<open>d \<ge> 0\<close>, the days of
  stock remaining are the unlimited sentinel \<open>Infinity\<close> when \<open>d = 0\<close>, and otherwise
  the floor of the quotient \<open>s / d\<close> rounded to a double. That is the floor of the
  exact quotient when the quotient is a double, and for every quotient below \<open>2^52\<close>
  the floor of the exact quotient or one more.
\<close>

theorem days_remaining_floor:
  "0 \<le> s \<Longrightarrow> 0 \<le> d \<Longrightarrow>
   calculateDaysOfStockRemaining (Fin s) (Fin d) =
     (if d = 0 then PosInf else Math_floor (fl (s / d)))
   \<and> (d \<noteq> 0 \<longrightarrow> is_double (s / d) \<longrightarrow>
        calculateDaysOfStockRemaining (Fin s) (Fin d) = Fin (of_int \<lfloor>s / d\<rfloor>))
   \<and> (d \<noteq> 0 \<longrightarrow> s / d < 2 ^ 52 \<longrightarrow>
        calculateDaysOfStockRemaining (Fin s) (Fin d) = Fin (of_int \<lfloor>s / d\<rfloor>)
        \<or> calculateDaysOfStockRemaining (Fin s) (Fin d) = Fin (of_int \<lfloor>s / d\<rfloor> + 1))"
  using floor_fl_near [of "s / d"]
  by (simp add: calculateDaysOfStockRemaining_def js_seq_def fl_double)

text \<open>
  The scenario of the specification: a stock of 45 and daily sales of 3.2, the double
  \<open>3602879701896397 / 2^50\<close>, give 14 days. Sales of 2.5 give the exact quotient 18.
\<close>

theorem days_remaining_floor_witness:
  "fl 3.2 = Fin (3602879701896397 / 2 ^ 50)
   \<and> (0::real) \<le> 45 \<and> (0::real) \<le> 3602879701896397 / 2 ^ 50
   \<and> calculateDaysOfStockRemaining (Fin 45) (Fin (3602879701896397 / 2 ^ 50)) = Fin 14
   \<and> (0::real) \<le> 5 / 2 \<and> (5 / 2 :: real) \<noteq> 0 \<and> is_double (45 / (5 / 2))
   \<and> (45 / (5 / 2) :: real) < 2 ^ 52
   \<and> calculateDaysOfStockRemaining (Fin 45) (Fin (5 / 2)) = Fin 18"
proof -
  have l: "fl 3.2 = Fin (3602879701896397 / 2 ^ 50)"
    by (simp add: fl_eval)
  have q: "Math_floor (fl (45 / (3602879701896397 / 2 ^ 50))) = Fin 14"
    by (simp add: fl_eval)
  have e: "is_double (45 / (5 / 2))"
    by (simp add: is_double_def fl_eval)
  have p: "(0::real) \<le> 45" "(0::real) \<le> 3602879701896397 / 2 ^ 50"
    "(0::real) \<le> 5 / 2" "(5 / 2 :: real) \<noteq> 0" "(3602879701896397 / 2 ^ 50 :: real) \<noteq> 0"
    "(45 / (5 / 2) :: real) < 2 ^ 52"
    by simp_all
  have a: "calculateDaysOfStockRemaining (Fin 45) (Fin (3602879701896397 / 2 ^ 50)) =
             Math_floor (fl (45 / (3602879701896397 / 2 ^ 50)))"
    using days_remaining_floor [of 45 "3602879701896397 / 2 ^ 50"] p by presburger
  have b: "calculateDaysOfStockRemaining (Fin 45) (Fin (5 / 2)) =
             Fin (of_int \<lfloor>45 / (5 / 2) :: real\<rfloor>)"
    using days_remaining_floor [of 45 "5 / 2"] p e by blast
  have f: "real_of_int \<lfloor>45 / (5 / 2) :: real\<rfloor> = 18" by simp
  show ?thesis using l p e by (simp only: a b q f simp_thms)
qed

text \<open>
  The claim as stated, the floor of the quotient, fails in both readings of a
  record. A stock of \<open>2^54 - 2\<close> and sales of 3 are doubles; their quotient
  \<open>6004799503160660.67\<close> rounds up to the next integer before the floor. A stock of
  33 and sales of 1.1 give 29 days, where the decimal quotient is 30.
\<close>

theorem days_remaining_floor_counterexample:
  "is_double 18014398509481982 \<and> is_double 3
   \<and> calculateDaysOfStockRemaining (Fin 18014398509481982) (Fin 3) = Fin 6004799503160661
   \<and> \<lfloor>18014398509481982 / 3 :: real\<rfloor> = 6004799503160660
   \<and> calculateDaysOfStockRemaining (Fin 33) (fl 1.1) = Fin 29
   \<and> \<lfloor>33 / 1.1 :: real\<rfloor> = 30"
  by (simp add: calculateDaysOfStockRemaining_def js_seq_def is_double_def fl_eval)

section \<open>The reorder flag\<close>



section \<open>The reorder quantity\<close>

text \<open>
  Claim C3, as amended. For a record with finite stock, sales and minimum quantity,
  the reported reorder quantity is never negative; it is 0 when no reorder is
  needed; and when one is, it is the larger of \<open>max(0, sales * 60 - stock)\<close> and
  the minimum reorder quantity, where the product and the difference are each
  rounded to a double. It is the exact value when both are doubles.
\<close>

theorem optimal_quantity:
  assumes "currentStock p = Fin s" and "averageDailySales p = Fin a"
    and "minimumReorderQuantity p = Fin m"
  shows "js_le (Fin 0) (optimalReorderQuantity (analyze p))
       \<and> (\<not> needsReorderFlag (analyze p) \<longrightarrow> optimalReorderQuantity (analyze p) = Fin 0)
       \<and> (needsReorderFlag (analyze p) \<longrightarrow>
            optimalReorderQuantity (analyze p) =
              Math_max (Math_max (Fin 0) (js_sub (fl (a * 60)) (Fin s))) (Fin m))
       \<and> (needsReorderFlag (analyze p) \<longrightarrow> is_double (a * 60) \<longrightarrow> is_double (a * 60 - s) \<longrightarrow>
            optimalReorderQuantity (analyze p) = Fin (max (max 0 (a * 60 - s)) m))"
proof -
  have q: "optimalReorderQuantity (analyze p) =
             (if needsReorderFlag (analyze p)
              then Math_max (Math_max (Fin 0) (js_sub (fl (a * 60)) (Fin s))) (Fin m)
              else Fin 0)"
    using assms by (simp add: analyze_def Let_def calculateOptimalReorderQuantity_def)
  have n: "js_le (Fin 0) (optimalReorderQuantity (analyze p))"
    using clamped_max_nonneg [OF js_sub_fl_not_NaN, of "a * 60" s m] by (simp add: q)
  have e: "is_double (a * 60) \<Longrightarrow> is_double (a * 60 - s) \<Longrightarrow>
             Math_max (Math_max (Fin 0) (js_sub (fl (a * 60)) (Fin s))) (Fin m) =
             Fin (max (max 0 (a * 60 - s)) m)"
    by (simp add: fl_double js_sub_def Math_max_Fin)
  show ?thesis using q n e by simp
qed

text \<open>The record \<open>DYAD-1\<close>: \<open>4.5 * 60 - 8 = 262\<close>, above the minimum of 20.\<close>

theorem optimal_quantity_witness:
  "currentStock dyadic_product = Fin 8 \<and> averageDailySales dyadic_product = Fin 4.5
   \<and> minimumReorderQuantity dyadic_product = Fin 20
   \<and> needsReorderFlag (analyze dyadic_product)
   \<and> is_double (4.5 * 60) \<and> is_double (4.5 * 60 - 8)
   \<and> optimalReorderQuantity (analyze dyadic_product) = Fin 262"
proof -
  have s: "currentStock dyadic_product = Fin 8"
    and a: "averageDailySales dyadic_product = Fin 4.5"
    and m: "minimumReorderQuantity dyadic_product = Fin 20"
    by (simp_all add: dyadic_product_def prod_009_def)
  have n: "needsReorderFlag (analyze dyadic_product)"
    by (simp add: dyadic_product_def prod_009_def analyze_def calc_defs fl_eval)
  have r: "is_double (4.5 * 60)" "is_double (4.5 * 60 - 8)"
    by (simp_all add: is_double_def fl_eval)
  have v: "max (max 0 (4.5 * 60 - 8)) 20 = (262::real)" by simp
  from optimal_quantity [OF s a m] n r
  have "optimalReorderQuantity (analyze dyadic_product) = Fin (max (max 0 (4.5 * 60 - 8)) 20)"
    by blast
  then have "optimalReorderQuantity (analyze dyadic_product) = Fin 262"
    by (simp only: v)
  then show ?thesis using s a m n r by blast
qed

text \<open>
  The claim as stated, the exact value, fails for the seed record \<open>PROD-009\<close>: the
  program reports \<open>237.99999999999997\<close>, which is neither the exact value for the
  stored sales nor the decimal 238.
\<close>

theorem optimal_quantity_counterexample:
  "averageDailySales prod_009 = Fin (2308094809027379 / 2 ^ 49)
   \<and> currentStock prod_009 = Fin 8 \<and> minimumReorderQuantity prod_009 = Fin 20
   \<and> needsReorderFlag (analyze prod_009)
   \<and> optimalReorderQuantity (analyze prod_009) = Fin (8373880557142015 / 2 ^ 45)
   \<and> max (max 0 (2308094809027379 / 2 ^ 49 * 60 - 8)) 20 \<noteq> (8373880557142015 / 2 ^ 45 :: real)
   \<and> max (max 0 (4.1 * 60 - 8)) 20 \<noteq> (8373880557142015 / 2 ^ 45 :: real)"
  by (simp add: prod_009_def analyze_def calc_defs fl_eval)

section \<open>The estimated cost\<close>

text \<open>
  Claim C9, as amended. For a record with a finite cost per unit \<open>c\<close> and a finite
  reorder quantity \<open>q\<close>, the estimated cost is \<open>Math.round(q * c * 100) / 100\<close> with
  each product and the quotient rounded to a double. It is 0 when no reorder is
  needed. When \<open>q * c\<close> and \<open>q * c * 100\<close> are doubles it is the double nearest to
  \<open>q * c\<close> rounded half up to two decimals.
\<close>

theorem estimated_cost:
  assumes "costPerUnit p = Fin c" and "optimalReorderQuantity (analyze p) = Fin q"
  shows "estimatedCost (analyze p) = round2 (fl (q * c))
       \<and> (\<not> needsReorderFlag (analyze p) \<longrightarrow> estimatedCost (analyze p) = Fin 0)
       \<and> (is_double (q * c) \<longrightarrow> is_double (q * c * 100) \<longrightarrow>
            estimatedCost (analyze p) = fl (half_up_2dp (q * c)))"
proof -
  have "estimatedCost (analyze p) =
          round2 (js_mul (optimalReorderQuantity (analyze p)) (costPerUnit p))"
    by (simp add: analyze_def Let_def)
  then have e: "estimatedCost (analyze p) = round2 (fl (q * c))"
    using assms by simp
  have "\<not> needsReorderFlag (analyze p) \<Longrightarrow> optimalReorderQuantity (analyze p) = Fin 0"
    by (simp add: analyze_def Let_def)
  then have z: "\<not> needsReorderFlag (analyze p) \<Longrightarrow> estimatedCost (analyze p) = Fin 0"
    using assms(2) e by (simp add: fl_zero round2_zero)
  have x: "is_double (q * c) \<Longrightarrow> is_double (q * c * 100) \<Longrightarrow>
            estimatedCost (analyze p) = fl (half_up_2dp (q * c))"
    by (simp add: e fl_double round2_def half_up_2dp_def)
  show ?thesis using e z x by blast
qed

text \<open>The record \<open>DYAD-1\<close>, \<open>262 * 2949\<close>, and the record \<open>IDLE-1\<close>, without reorder.\<close>

theorem estimated_cost_witness:
  "costPerUnit dyadic_product = Fin 2949
   \<and> optimalReorderQuantity (analyze dyadic_product) = Fin 262
   \<and> is_double (262 * 2949) \<and> is_double (262 * 2949 * 100)
   \<and> estimatedCost (analyze dyadic_product) = Fin 772638
   \<and> costPerUnit idle_product = Fin 2499
   \<and> optimalReorderQuantity (analyze idle_product) = Fin 0
   \<and> \<not> needsReorderFlag (analyze idle_product)
   \<and> estimatedCost (analyze idle_product) = Fin 0"
proof -
  have c: "costPerUnit dyadic_product = Fin 2949"
    and q: "optimalReorderQuantity (analyze dyadic_product) = Fin 262"
    by (simp_all add: dyadic_product_def prod_009_def analyze_def calc_defs fl_eval)
  have r: "is_double (262 * 2949)" "is_double (262 * 2949 * 100)"
    by (simp_all add: is_double_def fl_eval)
  have v: "fl (half_up_2dp (262 * 2949)) = Fin 772638"
    by (simp add: half_up_2dp_def fl_eval)
  have ic: "costPerUnit idle_product = Fin 2499"
    and iq: "optimalReorderQuantity (analyze idle_product) = Fin 0"
    and inr: "\<not> needsReorderFlag (analyze idle_product)"
    by (simp_all add: idle_product_def prod_001_def analyze_def calc_defs fl_eval)
  from estimated_cost [OF c q] r
  have "estimatedCost (analyze dyadic_product) = fl (half_up_2dp (262 * 2949))" by blast
  then have e: "estimatedCost (analyze dyadic_product) = Fin 772638"
    by (simp only: v)
  from estimated_cost [OF ic iq] inr
  have z: "estimatedCost (analyze idle_product) = Fin 0" by blast
  show ?thesis using c q r e ic iq inr z by blast
qed

text \<open>
  The claim as stated, one standard rounding of the product to two decimals, fails
  for the record \<open>CENT-1\<close>: one unit at the stored price
  \<open>2.67499999999999982...\<close>, which both modes round to 2.67, is estimated at 2.68,
  because the product by 100 rounds to \<open>267.5\<close>.
\<close>

theorem estimated_cost_counterexample:
  "costPerUnit cent_product = Fin (3011782250804019 / 2 ^ 50)
   \<and> optimalReorderQuantity (analyze cent_product) = Fin 1
   \<and> estimatedCost (analyze cent_product) = Fin (6034823500676465 / 2 ^ 51)
   \<and> half_up_2dp (1 * (3011782250804019 / 2 ^ 50)) = 2.67
   \<and> half_even_2dp (1 * (3011782250804019 / 2 ^ 50)) = 2.67
   \<and> fl 2.67 \<noteq> Fin (6034823500676465 / 2 ^ 51)
   \<and> fl 2.68 = Fin (6034823500676465 / 2 ^ 51)"
  by (simp add: cent_product_def analyze_def calc_defs round2_def half_up_2dp_def
      half_even_2dp_def fl_eval)

text \<open>
  Read as decimals the prices fare no better: 1.015 is estimated at 1.01, where both
  modes give 1.02.
\<close>

lemma estimated_cost_decimal_reading:
  "estimatedCost (analyze (cent_product \<lparr> costPerUnit := fl 1.015 \<rparr>)) = fl 1.01
   \<and> half_up_2dp 1.015 = 1.02 \<and> half_even_2dp 1.015 = 1.02 \<and> fl 1.01 \<noteq> fl 1.02"
  by (simp add: cent_product_def analyze_def calc_defs round2_def half_up_2dp_def
      half_even_2dp_def fl_eval)

section \<open>The order of the analysis\<close>

lemma criticalityOrder_range: "1 \<le> criticalityOrder c \<and> criticalityOrder c \<le> 3"
  by (cases c) simp_all

lemma criticalityOrder_inj: "criticalityOrder c = criticalityOrder c' \<longleftrightarrow> c = c'"
  by (cases c; cases c') simp_all

text \<open>The comparator is the order of \<open>urgency\<close>.\<close>

lemma comparator_urgency: "sort_comparator a b \<le> 0 \<longleftrightarrow> urgency a \<le> urgency b"
  using criticalityOrder_range [of "criticality a"] criticalityOrder_range [of "criticality b"]
  by (auto simp: sort_comparator_def urgency_def)

lemma urgency_group:
  "urgency a = (if n then 0 else 3) + (3 - criticalityOrder c) \<longleftrightarrow>
     needsReorderFlag a = n \<and> criticality a = c"
  using criticalityOrder_range [of "criticality a"] criticalityOrder_range [of c]
    criticalityOrder_inj [of "criticality a" c]
  by (auto simp: urgency_def)


text \<open>The sort of the model is the stable sort of the library by this key.\<close>

lemma place_insort_key: "place sort_comparator x xs = insort_key urgency x xs"
  by (induction xs) (simp_all add: comparator_urgency)

lemma array_sort_sort_key: "array_sort sort_comparator xs = sort_key urgency xs"
  by (induction xs) (simp_all add: place_insort_key)


text \<open>
  Every stable sort gives the result of the model: a list with the elements of the
  input, in the order of the comparator, that keeps the input order inside each group,
  is the list \<open>array_sort\<close> returns.
\<close>

lemma array_sort_unique:
  assumes "mset ys = mset xs"
    and "sorted_wrt (\<lambda>a b. sort_comparator a b \<le> 0) ys"
    and "\<And>n c. filter (\<lambda>a. needsReorderFlag a = n \<and> criticality a = c) ys =
               filter (\<lambda>a. needsReorderFlag a = n \<and> criticality a = c) xs"
  shows "array_sort sort_comparator xs = ys"
proof -
  have "sorted (map urgency ys)"
    using assms(2) by (simp add: sorted_map comparator_urgency)
  moreover have "filter (\<lambda>x. urgency k = urgency x) ys = filter (\<lambda>x. urgency k = urgency x) xs"
    for k
  proof -
    have "(urgency k = urgency x) = (needsReorderFlag x = needsReorderFlag k
        \<and> criticality x = criticality k)" for x
      using urgency_group [of x "needsReorderFlag k" "criticality k"]
      by (auto simp: urgency_def)
    then show ?thesis
      using assms(3) [of "needsReorderFlag k" "criticality k"] by simp
  qed
  ultimately have "sort_key urgency xs = ys"
    using assms(1) by (intro properties_for_sort_key) simp_all
  then show ?thesis
    by (simp add: array_sort_sort_key)
qed

text \<open>When the store gives the products, the handler answers with the sorted analysis.\<close>

lemma reorder_analysis_handler_resolved:
  "reorder_analysis_handler (Resolved ps) = Inr (analyzeAll ps)"
  by (simp add: reorder_analysis_handler_def)



section \<open>The demand spike\<close>

text \<open>
  Claim C4, as amended. For a record with finite stock and sales, a multiplier
  \<open>m > 0\<close> and a duration \<open>t > 0\<close>, the stock after the spike is
  \<open>max(0, stock - sales * m * t)\<close>, never negative, and the new average of the daily
  sales is \<open>sales * m\<close> itself when \<open>t \<ge> 30\<close> and
  \<open>(sales * (30 - t) + sales * m * t) / 30\<close> otherwise, where every product, sum,
  difference and quotient is rounded to a double. The stock is the exact value when
  the intermediate results are doubles, and the average is then the exact quotient
  rounded once. The response reports both through \<open>Math.round(x * 100) / 100\<close>.
\<close>

lemma spike_stock_not_NaN: "t \<noteq> 0 \<Longrightarrow> js_sub (Fin s) (js_mul (fl z) (Fin t)) \<noteq> NaN"
proof -
  assume t: "t \<noteq> 0"
  have "js_mul (fl z) (Fin t) \<noteq> NaN"
    using fl_cases [of z] t by (auto simp: fl_not_NaN signed_inf_def split: if_splits)
  then show ?thesis
    using fl_not_NaN by (cases "js_mul (fl z) (Fin t)") (simp_all add: js_sub_def)
qed

lemma normalPeriod_short: "0 < t \<Longrightarrow> t < 30 \<Longrightarrow> normalPeriod (Fin t) = fl (30 - t)"
proof -
  assume t: "0 < t" "t < 30"
  have "(30::real) < 2 ^ 1024 - 2 ^ 970" by simp
  with t have "\<bar>30 - t\<bar> < 2 ^ 1024 - 2 ^ 970" by linarith
  then have f: "fl (30 - t) = Fin (round64 (30 - t))" by (rule fl_small)
  have "0 \<le> round64 (30 - t)" using t by (intro round64_nonneg) simp
  then show ?thesis
    by (simp add: normalPeriod_def totalDays_def js_sub_def f Math_max_def)
qed

theorem spike_stock_and_average:
  assumes "currentStock p = Fin s" and "averageDailySales p = Fin a"
    and "0 < m" and "0 < t"
  shows "stockAfterSpike p (Fin m) (Fin t) =
           Math_max (Fin 0) (js_sub (Fin s) (js_mul (fl (a * m)) (Fin t)))
       \<and> js_le (Fin 0) (stockAfterSpike p (Fin m) (Fin t))
       \<and> (is_double (a * m) \<longrightarrow> is_double (a * m * t) \<longrightarrow> is_double (s - a * m * t) \<longrightarrow>
            stockAfterSpike p (Fin m) (Fin t) = Fin (max 0 (s - a * m * t)))
       \<and> (30 \<le> t \<longrightarrow> newAverageDailySales p (Fin m) (Fin t) = fl (a * m))
       \<and> (t < 30 \<longrightarrow> newAverageDailySales p (Fin m) (Fin t) =
            js_div (js_add (js_mul (Fin a) (fl (30 - t))) (js_mul (fl (a * m)) (Fin t)))
              (Fin 30))
       \<and> (t < 30 \<longrightarrow> is_double (30 - t) \<longrightarrow> is_double (a * (30 - t)) \<longrightarrow>
            is_double (a * m) \<longrightarrow> is_double (a * m * t) \<longrightarrow>
            is_double (a * (30 - t) + a * m * t) \<longrightarrow>
            newAverageDailySales p (Fin m) (Fin t) = fl ((a * (30 - t) + a * m * t) / 30))
       \<and> afterSpike_stockAfterSpike (afterSpike (simulate p (Fin m) (Fin t))) =
            round2 (stockAfterSpike p (Fin m) (Fin t))
       \<and> afterSpike_newAverageDailySales (afterSpike (simulate p (Fin m) (Fin t))) =
            round2 (newAverageDailySales p (Fin m) (Fin t))"
proof -
  have st: "stockAfterSpike p (Fin m) (Fin t) =
              Math_max (Fin 0) (js_sub (Fin s) (js_mul (fl (a * m)) (Fin t)))"
    using assms
    by (simp add: stockAfterSpike_def totalSpikeConsumption_def spikedDailySales_def)
  have nn: "js_le (Fin 0) (stockAfterSpike p (Fin m) (Fin t))"
    unfolding st using assms(4) by (intro clamped_nonneg spike_stock_not_NaN) simp
  have ex: "is_double (a * m) \<Longrightarrow> is_double (a * m * t) \<Longrightarrow> is_double (s - a * m * t) \<Longrightarrow>
            stockAfterSpike p (Fin m) (Fin t) = Fin (max 0 (s - a * m * t))"
    by (simp add: st fl_double js_sub_def Math_max_Fin)
  have lg: "30 \<le> t \<Longrightarrow> newAverageDailySales p (Fin m) (Fin t) = fl (a * m)"
    using assms
    by (simp add: newAverageDailySales_def spikedDailySales_def js_ge_def totalDays_def)
  have sh: "t < 30 \<Longrightarrow> newAverageDailySales p (Fin m) (Fin t) =
            js_div (js_add (js_mul (Fin a) (fl (30 - t))) (js_mul (fl (a * m)) (Fin t)))
              (Fin 30)"
    using assms normalPeriod_short [of t]
    by (simp add: newAverageDailySales_def spikedDailySales_def js_ge_def totalDays_def)
  have se: "t < 30 \<Longrightarrow> is_double (30 - t) \<Longrightarrow> is_double (a * (30 - t)) \<Longrightarrow>
            is_double (a * m) \<Longrightarrow> is_double (a * m * t) \<Longrightarrow>
            is_double (a * (30 - t) + a * m * t) \<Longrightarrow>
            newAverageDailySales p (Fin m) (Fin t) = fl ((a * (30 - t) + a * m * t) / 30)"
    by (simp add: sh fl_double)
  have rp: "afterSpike_stockAfterSpike (afterSpike (simulate p (Fin m) (Fin t))) =
            round2 (stockAfterSpike p (Fin m) (Fin t))
       \<and> afterSpike_newAverageDailySales (afterSpike (simulate p (Fin m) (Fin t))) =
            round2 (newAverageDailySales p (Fin m) (Fin t))"
    by (simp add: simulate_def)
  show ?thesis
    using st nn ex lg sh se rp by blast
qed

text \<open>
  The scenario of the specification: a stock of 100, sales of 2, a spike of 3 times
  for 10 days leave 40 units, and the new average is \<open>100 / 30\<close> as a double.
\<close>

theorem spike_stock_and_average_witness:
  "currentStock scenario_product = Fin 100 \<and> averageDailySales scenario_product = Fin 2
   \<and> (0::real) < 3 \<and> (0::real) < 10 \<and> (10::real) < 30
   \<and> is_double (2 * 3) \<and> is_double (2 * 3 * 10) \<and> is_double (100 - 2 * 3 * 10)
   \<and> is_double (30 - 10) \<and> is_double (2 * (30 - 10))
   \<and> is_double (2 * (30 - 10) + 2 * 3 * 10)
   \<and> stockAfterSpike scenario_product (Fin 3) (Fin 10) = Fin 40
   \<and> newAverageDailySales scenario_product (Fin 3) (Fin 10) =
       Fin (7505999378950827 / 2 ^ 51)"
proof -
  have s: "currentStock scenario_product = Fin 100"
    and a: "averageDailySales scenario_product = Fin 2"
    by (simp_all add: scenario_product_def prod_001_def)
  have o: "(0::real) < 3" "(0::real) < 10" "(10::real) < 30" by simp_all
  have r: "is_double (2 * 3)" "is_double (2 * 3 * 10)" "is_double (100 - 2 * 3 * 10)"
    "is_double (30 - 10)" "is_double (2 * (30 - 10))"
    "is_double (2 * (30 - 10) + 2 * 3 * 10)"
    by (simp_all add: is_double_def fl_eval)
  have v: "max 0 (100 - 2 * 3 * 10) = (40::real)"
    "fl ((2 * (30 - 10) + 2 * 3 * 10) / 30) = Fin (7505999378950827 / 2 ^ 51)"
    by (simp_all add: fl_eval)
  note t = spike_stock_and_average [OF s a o(1) o(2)]
  from t r have "stockAfterSpike scenario_product (Fin 3) (Fin 10) =
      Fin (max 0 (100 - 2 * 3 * 10))" by blast
  then have x: "stockAfterSpike scenario_product (Fin 3) (Fin 10) = Fin 40"
    by (simp only: v)
  from t r o(3) have "newAverageDailySales scenario_product (Fin 3) (Fin 10) =
      fl ((2 * (30 - 10) + 2 * 3 * 10) / 30)" by blast
  then have y: "newAverageDailySales scenario_product (Fin 3) (Fin 10) =
       Fin (7505999378950827 / 2 ^ 51)"
    by (simp only: v)
  show ?thesis using s a o r x y by blast
qed

text \<open>
  The claim as stated, the exact values, fails for the seed record \<open>PROD-001\<close> with
  a spike of 2 times for 7 days: the program computes \<open>0.19999999999999574\<close>,
  neither the exact value for the stored sales nor the decimal 0.2.
\<close>

theorem spike_stock_and_average_counterexample:
  "currentStock prod_001 = Fin 45
   \<and> averageDailySales prod_001 = Fin (3602879701896397 / 2 ^ 50)
   \<and> stockAfterSpike prod_001 (Fin 2) (Fin 7) = Fin (28147497671065 / 2 ^ 47)
   \<and> max 0 (45 - 3602879701896397 / 2 ^ 50 * 2 * 7) \<noteq> (28147497671065 / 2 ^ 47 :: real)
   \<and> max 0 (45 - 3.2 * 2 * 7) \<noteq> (28147497671065 / 2 ^ 47 :: real)"
  by (simp add: prod_001_def spike_defs calc_defs fl_eval)

text \<open>
  Claim C10. For a record that is not sold, with a stock \<open>s \<ge> 0\<close> and a lead time
  that are doubles, a spike of multiplier \<open>m > 0\<close> and duration \<open>t > 0\<close> consumes
  nothing: the consumption is 0, the stock is unchanged, the new average is 0, the
  days remaining after the spike are unlimited, no reorder is needed and the reorder
  quantity is 0.
\<close>

theorem idle_spike_no_op:
  assumes "averageDailySales p = Fin 0" and "currentStock p = Fin s" and "0 \<le> s"
    and "supplierLeadTime p = Fin l" and "0 < m" and "0 < t"
    and "is_double s" and "is_double l"
  shows "totalSpikeConsumption p (Fin m) (Fin t) = Fin 0
       \<and> stockAfterSpike p (Fin m) (Fin t) = currentStock p
       \<and> newAverageDailySales p (Fin m) (Fin t) = Fin 0
       \<and> afterSpike_daysRemaining (afterSpike (simulate p (Fin m) (Fin t))) = Str ''Unlimited''
       \<and> \<not> afterSpike_needsReorder (afterSpike (simulate p (Fin m) (Fin t)))
       \<and> afterSpike_optimalReorderQuantity (afterSpike (simulate p (Fin m) (Fin t))) = Fin 0"
proof -
  have sp: "spikedDailySales p (Fin m) = Fin 0"
    using assms by (simp add: spikedDailySales_def fl_zero)
  have c: "totalSpikeConsumption p (Fin m) (Fin t) = Fin 0"
    using sp by (simp add: totalSpikeConsumption_def fl_zero)
  have st: "stockAfterSpike p (Fin m) (Fin t) = currentStock p"
    using assms c by (simp add: stockAfterSpike_def js_sub_def fl_double Math_max_Fin)
  have av: "newAverageDailySales p (Fin m) (Fin t) = Fin 0"
  proof (cases "30 \<le> t")
    case True
    then show ?thesis
      using sp by (simp add: newAverageDailySales_def js_ge_def totalDays_def)
  next
    case False
    obtain y where y: "normalPeriod (Fin t) = Fin y"
    proof -
      have "(30::real) < 2 ^ 1024 - 2 ^ 970" by simp
      with False assms(6) have "\<bar>30 - t\<bar> < 2 ^ 1024 - 2 ^ 970" by linarith
      then have "fl (30 - t) = Fin (round64 (30 - t))" by (rule fl_small)
      then have "normalPeriod (Fin t) = Fin (max 0 (round64 (30 - t)))"
        by (simp add: normalPeriod_def totalDays_def js_sub_def Math_max_Fin)
      then show ?thesis using that by blast
    qed
    show ?thesis
      using False assms(1) sp y
      by (simp add: newAverageDailySales_def js_ge_def totalDays_def fl_zero)
  qed
  have d: "spike_daysRemaining p (Fin m) (Fin t) = PosInf"
    using av by (simp add: spike_daysRemaining_def calculateDaysOfStockRemaining_def js_seq_def)
  have n: "\<not> spike_needsReorderFlag p (Fin m) (Fin t)"
    using d assms(4) fl_double_plus_5 [OF assms(8)]
    by (simp add: spike_needsReorderFlag_def calculateSafetyStockThreshold_def needsReorder_def)
  have q: "spike_optimalQuantity p (Fin m) (Fin t) = Fin 0"
    using n by (simp add: spike_optimalQuantity_def)
  show ?thesis
    unfolding simulate_def using c st av d n q by (simp add: js_seq_def)
qed

theorem idle_spike_no_op_witness:
  "averageDailySales idle_product = Fin 0 \<and> currentStock idle_product = Fin 45
   \<and> (0::real) \<le> 45 \<and> supplierLeadTime idle_product = Fin 7
   \<and> (0::real) < 3 \<and> (0::real) < 10 \<and> is_double 45 \<and> is_double 7
   \<and> stockAfterSpike idle_product (Fin 3) (Fin 10) = Fin 45
   \<and> afterSpike_daysRemaining (afterSpike (simulate idle_product (Fin 3) (Fin 10))) =
       Str ''Unlimited''"
proof -
  have a: "averageDailySales idle_product = Fin 0"
    and s: "currentStock idle_product = Fin 45"
    and l: "supplierLeadTime idle_product = Fin 7"
    by (simp_all add: idle_product_def prod_001_def)
  have o: "(0::real) \<le> 45" "(0::real) < 3" "(0::real) < 10" by simp_all
  have r: "is_double 45" "is_double 7"
    by (simp_all add: is_double_def fl_eval)
  from idle_spike_no_op [OF a s o(1) l o(2) o(3) r] show ?thesis
    using a s l o r by simp
qed

section \<open>Validation and outcomes of the simulation\<close>

text \<open>
  Claim C6, as amended. A request without product identifier (absent or empty),
  without multiplier or without duration, or with a multiplier or a duration that is
  not positive, is rejected as invalid input, whatever the store holds. For every
  other request with a non-empty identifier and a positive multiplier and duration,
  the outcome follows the lookup of the store: not found when the store has no such
  record, the simulation of the record when it has one, and a server error with the
  message of the store when the lookup itself fails.
\<close>

theorem simulate_demand_spike_outcomes:
  "(body_productId body = None \<or> body_productId body = Some [] \<or>
    body_spikeMultiplier body = None \<or> body_spikeDuration body = None \<or>
    (\<exists>x. body_spikeMultiplier body = Some (Fin x) \<and> x \<le> 0) \<or>
    (\<exists>y. body_spikeDuration body = Some (Fin y) \<and> y \<le> 0)
    \<longrightarrow> simulate_demand_spike findOne body = Inl (InvalidInput missing_fields)
      \<or> simulate_demand_spike findOne body = Inl (InvalidInput not_positive))
   \<and> (body_productId body = Some pid \<and> pid \<noteq> [] \<and>
      body_spikeMultiplier body = Some (Fin m) \<and> 0 < m \<and>
      body_spikeDuration body = Some (Fin t) \<and> 0 < t
      \<longrightarrow> simulate_demand_spike findOne body =
            (case findOne pid of
               Rejected message \<Rightarrow> Inl (ServerError message)
             | Resolved None \<Rightarrow> Inl (NotFound ''Product not found'')
             | Resolved (Some p) \<Rightarrow> Inr (simulate p (Fin m) (Fin t))))"
  by (auto simp: simulate_demand_spike_def js_truthy_def split: option.splits promise.splits)

text \<open>
  A multiplier of \<open>-1\<close>, a missing multiplier, a record of the store, an unknown
  identifier, and a store that cannot be reached.
\<close>

theorem simulate_demand_spike_outcomes_witness:
  "simulate_demand_spike example_store
     \<lparr> body_productId = Some ''PROD-001'', body_spikeMultiplier = Some (Fin (- 1)),
       body_spikeDuration = Some (Fin 7) \<rparr> \<in>
       {Inl (InvalidInput missing_fields), Inl (InvalidInput not_positive)}
   \<and> simulate_demand_spike example_store
     \<lparr> body_productId = Some ''PROD-001'', body_spikeMultiplier = None,
       body_spikeDuration = Some (Fin 7) \<rparr> \<in>
       {Inl (InvalidInput missing_fields), Inl (InvalidInput not_positive)}
   \<and> simulate_demand_spike example_store
     \<lparr> body_productId = Some ''PROD-001'', body_spikeMultiplier = Some (Fin 2),
       body_spikeDuration = Some (Fin 7) \<rparr> = Inr (simulate prod_001 (Fin 2) (Fin 7))
   \<and> simulate_demand_spike example_store
     \<lparr> body_productId = Some ''PROD-404'', body_spikeMultiplier = Some (Fin 2),
       body_spikeDuration = Some (Fin 7) \<rparr> = Inl (NotFound ''Product not found'')
   \<and> simulate_demand_spike unreachable_store
     \<lparr> body_productId = Some ''PROD-001'', body_spikeMultiplier = Some (Fin 2),
       body_spikeDuration = Some (Fin 7) \<rparr> = Inl (ServerError ''connection lost'')"
  using
    simulate_demand_spike_outcomes [of
      "\<lparr> body_productId = Some ''PROD-001'', body_spikeMultiplier = Some (Fin (- 1)),
         body_spikeDuration = Some (Fin 7) \<rparr>" example_store]
    simulate_demand_spike_outcomes [of
      "\<lparr> body_productId = Some ''PROD-001'', body_spikeMultiplier = None,
         body_spikeDuration = Some (Fin 7) \<rparr>" example_store]
    simulate_demand_spike_outcomes [of
      "\<lparr> body_productId = Some ''PROD-001'', body_spikeMultiplier = Some (Fin 2),
         body_spikeDuration = Some (Fin 7) \<rparr>" example_store "''PROD-001''" 2 7]
    simulate_demand_spike_outcomes [of
      "\<lparr> body_productId = Some ''PROD-404'', body_spikeMultiplier = Some (Fin 2),
         body_spikeDuration = Some (Fin 7) \<rparr>" example_store "''PROD-404''" 2 7]
    simulate_demand_spike_outcomes [of
      "\<lparr> body_productId = Some ''PROD-001'', body_spikeMultiplier = Some (Fin 2),
         body_spikeDuration = Some (Fin 7) \<rparr>" unreachable_store "''PROD-001''" 2 7]
  by (simp add: example_store_def unreachable_store_def)

text \<open>
  The claim as stated, that invalid input and not found are the only error outcomes
  and every other well-formed request succeeds, fails when the store cannot be
  reached: the \<open>catch\<close> of the handler answers a well-formed request with status 500.
\<close>

theorem store_failure_counterexample:
  "simulate_demand_spike unreachable_store
     \<lparr> body_productId = Some ''PROD-001'', body_spikeMultiplier = Some (Fin 2),
       body_spikeDuration = Some (Fin 7) \<rparr> = Inl (ServerError ''connection lost'')"
  by (simp add: simulate_demand_spike_def unreachable_store_def js_truthy_def)

section \<open>Values of the response that are not finite\<close>

text \<open>For a stock other than 0 the depletion is the rounded percentage of the stock.\<close>

lemma stock_depletion_positive_stock:
  "currentStock p = Fin s \<Longrightarrow> s \<noteq> 0 \<Longrightarrow> totalSpikeConsumption p sm sd = Fin c \<Longrightarrow>
   stockDepletion (spikeDetails (simulate p sm sd)) =
     round2 (js_mul (fl (c / s)) (Fin 100))"
  by (simp add: simulate_def)

text \<open>
  Claim C7. The claim asks for an explicit outcome when the stock is 0. The handler
  has no such case: for the record \<open>OUT-1\<close>, with a stock of 0 and daily sales of
  4.1, the simulation succeeds and the depletion is the division of 41 by 0,
  \<open>Infinity\<close>.
\<close>

theorem stock_depletion_sold_out:
  "simulate_demand_spike example_store
     \<lparr> body_productId = Some ''OUT-1'', body_spikeMultiplier = Some (Fin 2),
       body_spikeDuration = Some (Fin 5) \<rparr> = Inr (simulate sold_out_product (Fin 2) (Fin 5))
   \<and> currentStock sold_out_product = Fin 0
   \<and> stockDepletion (spikeDetails (simulate sold_out_product (Fin 2) (Fin 5))) = PosInf"
  by (simp add: simulate_demand_spike_def example_store_def js_truthy_def simulate_def
      sold_out_product_def prod_009_def spike_defs round2_def fl_eval)

text \<open>The response to this request is a success whose depletion is not a finite number.\<close>

theorem stock_depletion_sold_out_witness:
  "map_sum id (\<lambda>sim. stockDepletion (spikeDetails sim))
     (simulate_demand_spike example_store
        \<lparr> body_productId = Some ''OUT-1'', body_spikeMultiplier = Some (Fin 2),
          body_spikeDuration = Some (Fin 5) \<rparr>) = Inr PosInf"
  using stock_depletion_sold_out by simp

text \<open>The analysis and the projection after the spike never report a raw infinity.\<close>

lemma analysis_never_raw_infinity: "daysRemaining (analyze p) \<noteq> Num PosInf"
  by (simp add: analyze_def Let_def js_seq_def)

lemma afterSpike_never_raw_infinity:
  "afterSpike_daysRemaining (afterSpike (simulate p sm sd)) \<noteq> Num PosInf"
  by (simp add: simulate_def js_seq_def)

text \<open>
  Claim C8. The claim asks for the tag \<open>'Unlimited'\<close> in every output. The snapshot
  \<open>original\<close> of the simulation misses the conversion that the two other places
  make: for the record \<open>IDLE-1\<close>, which is not sold, its days remaining are the raw
  \<open>Infinity\<close>, while the projection after the spike and the analysis of the same
  record carry the tag.
\<close>

theorem original_days_remaining_raw:
  "simulate_demand_spike example_store
     \<lparr> body_productId = Some ''IDLE-1'', body_spikeMultiplier = Some (Fin 2),
       body_spikeDuration = Some (Fin 5) \<rparr> = Inr (simulate idle_product (Fin 2) (Fin 5))
   \<and> original_daysRemaining (original (simulate idle_product (Fin 2) (Fin 5))) = Num PosInf
   \<and> afterSpike_daysRemaining (afterSpike (simulate idle_product (Fin 2) (Fin 5))) =
       Str ''Unlimited''
   \<and> daysRemaining (analyze idle_product) = Str ''Unlimited''"
  by (simp add: simulate_demand_spike_def example_store_def js_truthy_def simulate_def
      idle_product_def prod_001_def spike_defs calc_defs analyze_def fl_eval)

text \<open>The response to this request is a success whose snapshot holds the raw value.\<close>

theorem original_days_remaining_raw_witness:
  "map_sum id (\<lambda>sim. original_daysRemaining (original sim))
     (simulate_demand_spike example_store
        \<lparr> body_productId = Some ''IDLE-1'', body_spikeMultiplier = Some (Fin 2),
          body_spikeDuration = Some (Fin 5) \<rparr>) = Inr (Num PosInf)"
  using original_days_remaining_raw by simp

end
